theory Spec2Isabelle
  imports Main
begin

section \<open>The script \<^verbatim>\<open>update_types.py\<close>\<close>

text \<open>
  The script reads a JSON document from a fixed path, takes its \<^verbatim>\<open>"types"\<close> entry and
  writes it to a second fixed path; any exception is caught by one handler and printed.

  The model is a shallow embedding with explicit state passing. The state (\<open>world\<close>)
  holds the file system, the lines printed so far and a log of the operations attempted.
  Whatever lies outside the script is a parameter (\<open>env\<close>): the JSON parser of the
  standard library and the failures the operating system may answer a file operation or a
  \<^verbatim>\<open>print\<close> with. Every exception is a value of type \<open>exc\<close>, and a statement that may
  raise returns \<open>exc + 'a\<close> next to the new state; so does the script as a whole, since an
  exception raised inside the handler leaves it.

  A file holds characters (both files are opened in text mode with encoding utf-8; a
  decoding or encoding failure is one of the failures a read or a write may be answered
  with). On writing, the text layer stores every newline of the text as the line separator
  of the platform, which is part of the surroundings. On reading it turns every line end
  into a newline before the parser sees the text; that is part of the parser parameter,
  which stands for \<^verbatim>\<open>json.load\<close> on a file holding the given characters.
\<close>

subsection \<open>Values, exceptions, events\<close>

type_synonym path = string

text \<open>What \<^verbatim>\<open>json.load\<close> can return. A dict is an association list, looked up with
  \<^const>\<open>map_of\<close> (the first pair of a key is its entry); a float is kept as its
  literal.\<close>

datatype pyval =
    PNone
  | PBool bool
  | PInt int
  | PFloat string
  | PStr string
  | PList "pyval list"
  | PDict "(string \<times> pyval) list"

text \<open>The exceptions the statements of the script can raise; each is a subclass of
  \<^verbatim>\<open>Exception\<close>. \<open>ValueError\<close> stands for its subclasses \<^verbatim>\<open>JSONDecodeError\<close>,
  \<^verbatim>\<open>UnicodeDecodeError\<close> and \<^verbatim>\<open>UnicodeEncodeError\<close> too. All but \<open>KeyError\<close> carry
  their message; \<open>KeyError\<close> carries the missing key. The messages of the exceptions
  the interpreter raises are worded as CPython 3.12 words them.\<close>

datatype exc =
    OSError string
  | ValueError string
  | RecursionError string
  | KeyError string
  | TypeError string

definition quoted :: "string \<Rightarrow> string" where
  \<comment> \<open>\<^verbatim>\<open>repr\<close> of a string without quotes, backslashes or control characters\<close>
  "quoted s = CHR 0x27 # s @ [CHR 0x27]"

fun str_exc :: "exc \<Rightarrow> string" where
  \<comment> \<open>\<^verbatim>\<open>str(e)\<close>, as the f-string of the handler formats the exception\<close>
  "str_exc (OSError m) = m"
| "str_exc (ValueError m) = m"
| "str_exc (RecursionError m) = m"
| "str_exc (KeyError k) = quoted k"
| "str_exc (TypeError m) = m"

fun type_name :: "pyval \<Rightarrow> string" where
  \<comment> \<open>\<^verbatim>\<open>type(v).__name__\<close>\<close>
  "type_name PNone = ''NoneType''"
| "type_name (PBool b) = ''bool''"
| "type_name (PInt i) = ''int''"
| "type_name (PFloat x) = ''float''"
| "type_name (PStr s) = ''str''"
| "type_name (PList xs) = ''list''"
| "type_name (PDict kvs) = ''dict''"

fun bad_argument_name :: "pyval \<Rightarrow> string" where
  \<comment> \<open>how the message of a rejected argument names it: \<^verbatim>\<open>None\<close> by its own name, any
     other value by its type\<close>
  "bad_argument_name PNone = ''None''"
| "bad_argument_name v = type_name v"

datatype mode = ModeR | ModeW

text \<open>The operations a run attempts, logged in order whether they succeed or not.\<close>

datatype event =
    EvOpen path mode
  | EvRead path
  | EvLoads
  | EvGetItem string
  | EvWrite path
  | EvPrint string

text \<open>The state: the files, the lines of the \<^verbatim>\<open>print\<close> calls that returned, and the
  log.\<close>

record world =
  fs :: "path \<rightharpoonup> string"
  stdout :: "string list"
  trace :: "event list"

text \<open>The surroundings of a run: the parser; for each file operation and for the
  \<^verbatim>\<open>print\<close> of a line the failure, if any, it is answered with (a failing write leaves
  the given number of characters behind); the line separator of the platform
  (\<^verbatim>\<open>os.linesep\<close>); and what a program could consult besides files: the command
  line, the environment variables and the network, as the answer to a request.\<close>

record env =
  json_loads :: "string \<Rightarrow> exc + pyval"
  open_fault :: "path \<Rightarrow> mode \<Rightarrow> exc option"
  read_fault :: "path \<Rightarrow> exc option"
  write_fault :: "path \<Rightarrow> (exc \<times> nat) option"
  print_fault :: "string \<Rightarrow> exc option"
  linesep :: string
  argv :: "string list"
  environ :: "string \<rightharpoonup> string"
  network :: "string \<Rightarrow> exc + string"

subsection \<open>The built-in operations the script calls\<close>

definition log :: "event \<Rightarrow> world \<Rightarrow> world" where
  "log ev w = w\<lparr>trace := trace w @ [ev]\<rparr>"

definition open_r :: "env \<Rightarrow> path \<Rightarrow> world \<Rightarrow> (exc + path \<times> string) \<times> world" where
  \<comment> \<open>\<^verbatim>\<open>open(p, "r", encoding="utf-8")\<close>; the handle is the path with the text to be read\<close>
  "open_r E p w =
     (let w' = log (EvOpen p ModeR) w in
      case open_fault E p ModeR of
        Some e \<Rightarrow> (Inl e, w')
      | None \<Rightarrow>
          (case fs w p of
             None \<Rightarrow> (Inl (OSError (''[Errno 2] No such file or directory: '' @ quoted p)), w')
           | Some t \<Rightarrow> (Inr (p, t), w')))"

definition json_load :: "env \<Rightarrow> path \<times> string \<Rightarrow> world \<Rightarrow> (exc + pyval) \<times> world" where
  \<comment> \<open>\<^verbatim>\<open>json.load(f)\<close> is \<^verbatim>\<open>json.loads(f.read())\<close>\<close>
  "json_load E f w =
     (let w' = log (EvRead (fst f)) w in
      case read_fault E (fst f) of
        Some e \<Rightarrow> (Inl e, w')
      | None \<Rightarrow> (json_loads E (snd f), log EvLoads w'))"

fun subscript :: "pyval \<Rightarrow> string \<Rightarrow> exc + pyval" where
  \<comment> \<open>\<^verbatim>\<open>v[k]\<close> for a string \<open>k\<close>\<close>
  "subscript (PDict kvs) k =
     (case map_of kvs k of None \<Rightarrow> Inl (KeyError k) | Some v \<Rightarrow> Inr v)"
| "subscript (PList xs) k = Inl (TypeError ''list indices must be integers or slices, not str'')"
| "subscript (PStr s) k = Inl (TypeError (''string indices must be integers, not '' @ quoted ''str''))"
| "subscript v k = Inl (TypeError (quoted (type_name v) @ '' object is not subscriptable''))"

definition getitem :: "pyval \<Rightarrow> string \<Rightarrow> world \<Rightarrow> (exc + pyval) \<times> world" where
  "getitem v k w = (subscript v k, log (EvGetItem k) w)"

definition open_w :: "env \<Rightarrow> path \<Rightarrow> world \<Rightarrow> (exc + path) \<times> world" where
  \<comment> \<open>\<^verbatim>\<open>open(p, "w", encoding="utf-8")\<close> creates the file or truncates it\<close>
  "open_w E p w =
     (let w' = log (EvOpen p ModeW) w in
      case open_fault E p ModeW of
        Some e \<Rightarrow> (Inl e, w')
      | None \<Rightarrow> (Inr p, w'\<lparr>fs := (fs w')(p \<mapsto> [])\<rparr>))"

definition append_file :: "path \<Rightarrow> string \<Rightarrow> world \<Rightarrow> world" where
  "append_file p s w =
     w\<lparr>fs := (fs w)(p \<mapsto> (case fs w p of None \<Rightarrow> [] | Some old \<Rightarrow> old) @ s)\<rparr>"

definition write_newlines :: "string \<Rightarrow> string \<Rightarrow> string" where
  \<comment> \<open>a file opened with the default \<^verbatim>\<open>newline=None\<close> stores each newline written
     to it as the line separator\<close>
  "write_newlines sep s = concat (map (\<lambda>c. if c = CHR 0x0A then sep else [c]) s)"

definition f_write :: "env \<Rightarrow> path \<Rightarrow> pyval \<Rightarrow> world \<Rightarrow> (exc + unit) \<times> world" where
  \<comment> \<open>\<^verbatim>\<open>f.write(v)\<close> on a file opened for writing, with the flush of leaving the
     \<^verbatim>\<open>with\<close> block: the text goes to the end of the file\<close>
  "f_write E p v w =
     (let w' = log (EvWrite p) w in
      case v of
        PStr s \<Rightarrow>
          (case write_fault E p of
             Some (e, n) \<Rightarrow> (Inl e, append_file p (take n (write_newlines (linesep E) s)) w')
           | None \<Rightarrow> (Inr (), append_file p (write_newlines (linesep E) s) w'))
      | _ \<Rightarrow> (Inl (TypeError (''write() argument must be str, not '' @ bad_argument_name v)), w'))"

definition py_print :: "env \<Rightarrow> string \<Rightarrow> world \<Rightarrow> (exc + unit) \<times> world" where
  \<comment> \<open>\<^verbatim>\<open>print(s)\<close> raises when standard output refuses the line\<close>
  "py_print E s w =
     (let w' = log (EvPrint s) w in
      case print_fault E s of
        Some e \<Rightarrow> (Inl e, w')
      | None \<Rightarrow> (Inr (), w'\<lparr>stdout := stdout w' @ [s]\<rparr>))"

subsection \<open>The script\<close>

definition input_path :: path where
  "input_path = ''C:/Users/Qbits/.gemini/antigravity/brain/b8aef8e2-6c26-4073-baeb-701e97c1f662/.system_generated/steps/135/output.txt''"

definition output_path :: path where
  "output_path = ''g:/cw/src/integrations/supabase/types.ts''"

definition success_message :: string where
  "success_message = ''Successfully wrote types to '' @ output_path"

definition error_message :: "exc \<Rightarrow> string" where
  "error_message e = ''Error: '' @ str_exc e"

text \<open>The body of \<^verbatim>\<open>try\<close>, the success \<^verbatim>\<open>print\<close> included. Leaving a \<^verbatim>\<open>with\<close>
  block closes its file on either exit, which changes nothing in the state modelled here.\<close>

definition try_block :: "env \<Rightarrow> world \<Rightarrow> (exc + unit) \<times> world" where
  "try_block E w =
     (case open_r E input_path w of
        (Inl e, w1) \<Rightarrow> (Inl e, w1)
      | (Inr f, w1) \<Rightarrow>
          (case json_load E f w1 of
             (Inl e, w2) \<Rightarrow> (Inl e, w2)
           | (Inr data, w2) \<Rightarrow>
               (case getitem data ''types'' w2 of
                  (Inl e, w3) \<Rightarrow> (Inl e, w3)
                | (Inr types_content, w3) \<Rightarrow>
                    (case open_w E output_path w3 of
                       (Inl e, w4) \<Rightarrow> (Inl e, w4)
                     | (Inr g, w4) \<Rightarrow>
                         (case f_write E g types_content w4 of
                            (Inl e, w5) \<Rightarrow> (Inl e, w5)
                          | (Inr u, w5) \<Rightarrow> py_print E success_message w5)))))"

text \<open>The script. The handler catches whatever the body raises, the exception of the
  success \<^verbatim>\<open>print\<close> too; its own \<^verbatim>\<open>print\<close> is not protected, so \<open>Inl e\<close> as the
  result is an exception that leaves the script.\<close>

definition run :: "env \<Rightarrow> world \<Rightarrow> (exc + unit) \<times> world" where
  \<comment> \<open>\<^verbatim>\<open>try: ... except Exception as e: print(f"Error: {e}")\<close>\<close>
  "run E w =
     (case try_block E w of
        (Inr u, w') \<Rightarrow> (Inr (), w')
      | (Inl e, w') \<Rightarrow> py_print E (error_message e) w')"

subsection \<open>What a run did\<close>

text \<open>The operations of the script in program order, the part of the log a run adds, and
  the lines a run prints.\<close>

definition script_ops :: "event list" where
  "script_ops =
     [EvOpen input_path ModeR, EvRead input_path, EvLoads, EvGetItem ''types'',
      EvOpen output_path ModeW, EvWrite output_path]"

definition events :: "env \<Rightarrow> world \<Rightarrow> event list" where
  "events E w = drop (length (trace w)) (trace (snd (run E w)))"

definition printed :: "env \<Rightarrow> world \<Rightarrow> string list" where
  "printed E w = drop (length (stdout w)) (stdout (snd (run E w)))"

definition attempted :: "world \<Rightarrow> nat \<Rightarrow> world" where
  \<comment> \<open>the state once the first \<open>k\<close> operations have been attempted\<close>
  "attempted w k = w\<lparr>trace := trace w @ take k script_ops\<rparr>"

fun is_str :: "pyval \<Rightarrow> bool" where
  "is_str (PStr s) = True"
| "is_str v = False"

fun is_dict :: "pyval \<Rightarrow> bool" where
  "is_dict (PDict kvs) = True"
| "is_dict v = False"

fun on_fixed_paths :: "event \<Rightarrow> bool" where
  "on_fixed_paths (EvOpen p m) = (p = input_path \<and> m = ModeR \<or> p = output_path \<and> m = ModeW)"
| "on_fixed_paths (EvRead p) = (p = input_path)"
| "on_fixed_paths (EvWrite p) = (p = output_path)"
| "on_fixed_paths ev = True"

text \<open>The failures the specification lists, each with the exception it raises: the input
  file cannot be opened, is missing or cannot be read; its text is not valid JSON; the
  parsed object has no \<^verbatim>\<open>"types"\<close> key; the output file cannot be opened or the write
  fails. Two more that the code has: the parsed value is not an object, and the
  \<^verbatim>\<open>"types"\<close> entry is not a string.\<close>

definition failure_mode :: "env \<Rightarrow> world \<Rightarrow> exc \<Rightarrow> bool" where
  "failure_mode E w e \<longleftrightarrow>
     open_fault E input_path ModeR = Some e \<or>
     open_fault E input_path ModeR = None \<and> fs w input_path = None \<and>
       e = OSError (''[Errno 2] No such file or directory: '' @ quoted input_path) \<or>
     (\<exists>t. open_fault E input_path ModeR = None \<and> fs w input_path = Some t \<and>
        (read_fault E input_path = Some e \<or>
         read_fault E input_path = None \<and>
         (json_loads E t = Inl e \<or>
          (\<exists>d. json_loads E t = Inr d \<and> \<not> is_dict d \<and> subscript d ''types'' = Inl e) \<or>
          (\<exists>kvs. json_loads E t = Inr (PDict kvs) \<and>
             (map_of kvs ''types'' = None \<and> e = KeyError ''types'' \<or>
              (\<exists>v. map_of kvs ''types'' = Some v \<and>
                 (open_fault E output_path ModeW = Some e \<or>
                  open_fault E output_path ModeW = None \<and>
                  (\<not> is_str v \<and>
                     e = TypeError (''write() argument must be str, not '' @ bad_argument_name v) \<or>
                   (\<exists>s n. v = PStr s \<and> write_fault E output_path = Some (e, n))))))))))"

subsection \<open>Example surroundings\<close>

text \<open>A parser that knows five documents and rejects any other text; an operating system
  that never fails and separates lines by a newline, one that separates them by carriage
  return and newline, one that refuses to open the output file, one that fails the write
  after four characters and one whose standard output is full; and a file system with both
  files present or the input file missing.\<close>

definition example_loads :: "string \<Rightarrow> exc + pyval" where
  \<open>example_loads t =
     (if t = ''{"types": "export type A = 1;"}''
        then Inr (PDict [(''types'', PStr ''export type A = 1;'')])
      else if t = ''{"types": 5}'' then Inr (PDict [(''types'', PInt 5)])
      else if t = ''{"types": null}'' then Inr (PDict [(''types'', PNone)])
      else if t = ''{"types": "type A = 1;'' @ [CHR 0x5C, CHR ''n''] @ ''type B = 2;"}''
        then Inr (PDict [(''types'', PStr (''type A = 1;'' @ [CHR 0x0A] @ ''type B = 2;''))])
      else if t = ''{}'' then Inr (PDict [])
      else Inl (ValueError ''Expecting value: line 1 column 1 (char 0)''))\<close>

definition example_doc :: string where
  \<open>example_doc = ''{"types": "export type A = 1;"}''\<close>

definition number_doc :: string where
  \<open>number_doc = ''{"types": 5}''\<close>

definition null_doc :: string where
  \<open>null_doc = ''{"types": null}''\<close>

definition two_line_doc :: string where
  \<comment> \<open>the two lines are separated by the JSON escape of a newline\<close>
  \<open>two_line_doc = ''{"types": "type A = 1;'' @ [CHR 0x5C, CHR ''n''] @ ''type B = 2;"}''\<close>

definition example_env :: env where
  "example_env =
     \<lparr>json_loads = example_loads, open_fault = (\<lambda>p m. None), read_fault = (\<lambda>p. None),
      write_fault = (\<lambda>p. None), print_fault = (\<lambda>s. None), linesep = [CHR 0x0A],
      argv = [''update_types.py''],
      environ = Map.empty, network = (\<lambda>u. Inl (OSError ''[Errno 101] Network is unreachable''))\<rparr>"

definition denied_env :: env where
  "denied_env =
     example_env\<lparr>open_fault := (\<lambda>p m. if m = ModeW
        then Some (OSError (''[Errno 13] Permission denied: '' @ quoted p)) else None)\<rparr>"

definition windows_env :: env where
  "windows_env = example_env\<lparr>linesep := [CHR 0x0D, CHR 0x0A]\<rparr>"

definition disk_full_env :: env where
  "disk_full_env =
     example_env\<lparr>write_fault := (\<lambda>p. Some (OSError ''[Errno 28] No space left on device'', 4))\<rparr>"

definition stdout_full_env :: env where
  "stdout_full_env =
     example_env\<lparr>print_fault := (\<lambda>s. Some (OSError ''[Errno 28] No space left on device''))\<rparr>"

definition example_world :: "string \<Rightarrow> string \<Rightarrow> world" where
  "example_world t old =
     \<lparr>fs = [input_path \<mapsto> t, output_path \<mapsto> old], stdout = [], trace = []\<rparr>"

definition no_input_world :: "string \<Rightarrow> world" where
  "no_input_world old = \<lparr>fs = [output_path \<mapsto> old], stdout = [], trace = []\<rparr>"

section \<open>Auxiliary facts\<close>

lemma paths_distinct [simp]: "input_path \<noteq> output_path" "output_path \<noteq> input_path"
  by (simp_all add: input_path_def output_path_def)

lemma messages_distinct [simp]: "success_message \<noteq> error_message e"
  by (simp add: success_message_def error_message_def)

lemmas file_op_defs = open_r_def json_load_def getitem_def open_w_def f_write_def
  append_file_def log_def Let_def

lemmas op_defs = file_op_defs py_print_def

lemma take_script_ops:
  "take 1 script_ops = [EvOpen input_path ModeR]"
  "take (Suc 0) script_ops = [EvOpen input_path ModeR]"
  "take 2 script_ops = [EvOpen input_path ModeR, EvRead input_path]"
  "take 3 script_ops = [EvOpen input_path ModeR, EvRead input_path, EvLoads]"
  "take 4 script_ops = [EvOpen input_path ModeR, EvRead input_path, EvLoads, EvGetItem ''types'']"
  "take 5 script_ops = [EvOpen input_path ModeR, EvRead input_path, EvLoads, EvGetItem ''types'',
     EvOpen output_path ModeW]"
  "take 6 script_ops = script_ops"
  by (simp_all add: script_ops_def)

lemma write_newlines_same:
  "sep = [CHR 0x0A] \<or> CHR 0x0A \<notin> set s \<Longrightarrow> write_newlines sep s = s"
  by (induction s) (auto simp: write_newlines_def)

text \<open>What a \<^verbatim>\<open>print\<close> does to each part of the state.\<close>

lemma py_print_fs: "fs (snd (py_print E s w)) = fs w"
  by (simp add: py_print_def log_def Let_def split: option.split)

lemma py_print_trace: "trace (snd (py_print E s w)) = trace w @ [EvPrint s]"
  by (simp add: py_print_def log_def Let_def split: option.split)

lemma py_print_stdout:
  "stdout (snd (py_print E s w)) =
     (case print_fault E s of None \<Rightarrow> stdout w @ [s] | Some e \<Rightarrow> stdout w)"
  by (simp add: py_print_def log_def Let_def split: option.split)

lemma py_print_result:
  "fst (py_print E s w) = (case print_fault E s of None \<Rightarrow> Inr () | Some e \<Rightarrow> Inl e)"
  by (simp add: py_print_def log_def Let_def split: option.split)

lemmas py_print_simps = py_print_fs py_print_trace py_print_stdout py_print_result

text \<open>The result of the \<^verbatim>\<open>try\<close> body, one lemma for each place where it can end.\<close>

lemma try_open_in_fault:
  "open_fault E input_path ModeR = Some e \<Longrightarrow> try_block E w = (Inl e, attempted w 1)"
  by (simp add: try_block_def file_op_defs attempted_def script_ops_def)

lemma try_no_input:
  "open_fault E input_path ModeR = None \<Longrightarrow> fs w input_path = None \<Longrightarrow>
   try_block E w =
     (Inl (OSError (''[Errno 2] No such file or directory: '' @ quoted input_path)), attempted w 1)"
  by (simp add: try_block_def file_op_defs attempted_def script_ops_def)

lemma try_read_fault:
  "open_fault E input_path ModeR = None \<Longrightarrow> fs w input_path = Some t \<Longrightarrow>
   read_fault E input_path = Some e \<Longrightarrow> try_block E w = (Inl e, attempted w 2)"
  by (simp add: try_block_def file_op_defs attempted_def script_ops_def)

lemma try_loads_fails:
  "open_fault E input_path ModeR = None \<Longrightarrow> fs w input_path = Some t \<Longrightarrow>
   read_fault E input_path = None \<Longrightarrow> json_loads E t = Inl e \<Longrightarrow>
   try_block E w = (Inl e, attempted w 3)"
  by (simp add: try_block_def file_op_defs attempted_def script_ops_def)

lemma try_subscript_fails:
  "open_fault E input_path ModeR = None \<Longrightarrow> fs w input_path = Some t \<Longrightarrow>
   read_fault E input_path = None \<Longrightarrow> json_loads E t = Inr d \<Longrightarrow>
   subscript d ''types'' = Inl e \<Longrightarrow> try_block E w = (Inl e, attempted w 4)"
  by (simp add: try_block_def file_op_defs attempted_def script_ops_def)

lemma try_open_out_fault:
  "open_fault E input_path ModeR = None \<Longrightarrow> fs w input_path = Some t \<Longrightarrow>
   read_fault E input_path = None \<Longrightarrow> json_loads E t = Inr d \<Longrightarrow>
   subscript d ''types'' = Inr v \<Longrightarrow> open_fault E output_path ModeW = Some e \<Longrightarrow>
   try_block E w = (Inl e, attempted w 5)"
  by (simp add: try_block_def file_op_defs attempted_def script_ops_def)

lemma try_not_str:
  "open_fault E input_path ModeR = None \<Longrightarrow> fs w input_path = Some t \<Longrightarrow>
   read_fault E input_path = None \<Longrightarrow> json_loads E t = Inr d \<Longrightarrow>
   subscript d ''types'' = Inr v \<Longrightarrow> open_fault E output_path ModeW = None \<Longrightarrow>
   \<not> is_str v \<Longrightarrow>
   try_block E w =
     (Inl (TypeError (''write() argument must be str, not '' @ bad_argument_name v)),
      (attempted w 6)\<lparr>fs := (fs w)(output_path \<mapsto> [])\<rparr>)"
  by (cases v) (simp_all add: try_block_def file_op_defs attempted_def script_ops_def)

lemma try_write_fault:
  "open_fault E input_path ModeR = None \<Longrightarrow> fs w input_path = Some t \<Longrightarrow>
   read_fault E input_path = None \<Longrightarrow> json_loads E t = Inr d \<Longrightarrow>
   subscript d ''types'' = Inr (PStr s) \<Longrightarrow> open_fault E output_path ModeW = None \<Longrightarrow>
   write_fault E output_path = Some (e, n) \<Longrightarrow>
   try_block E w = (Inl e, (attempted w 6)\<lparr>fs := (fs w)(output_path \<mapsto> take n (write_newlines (linesep E) s))\<rparr>)"
  by (simp add: try_block_def file_op_defs attempted_def script_ops_def)

lemma try_written:
  "open_fault E input_path ModeR = None \<Longrightarrow> fs w input_path = Some t \<Longrightarrow>
   read_fault E input_path = None \<Longrightarrow> json_loads E t = Inr d \<Longrightarrow>
   subscript d ''types'' = Inr (PStr s) \<Longrightarrow> open_fault E output_path ModeW = None \<Longrightarrow>
   write_fault E output_path = None \<Longrightarrow>
   try_block E w =
     py_print E success_message ((attempted w 6)\<lparr>fs := (fs w)(output_path \<mapsto> write_newlines (linesep E) s)\<rparr>)"
  by (simp add: try_block_def file_op_defs attempted_def script_ops_def)

lemmas try_simps = try_open_in_fault try_no_input try_read_fault try_loads_fails
  try_subscript_fails try_open_out_fault try_not_str try_write_fault

text \<open>The script after each of them.\<close>

lemma run_after_failure:
  "try_block E w = (Inl e, w') \<Longrightarrow> run E w = py_print E (error_message e) w'"
  by (simp add: run_def)

lemma try_written_printed:
  "open_fault E input_path ModeR = None \<Longrightarrow> fs w input_path = Some t \<Longrightarrow>
   read_fault E input_path = None \<Longrightarrow> json_loads E t = Inr d \<Longrightarrow>
   subscript d ''types'' = Inr (PStr s) \<Longrightarrow> open_fault E output_path ModeW = None \<Longrightarrow>
   write_fault E output_path = None \<Longrightarrow> print_fault E success_message = None \<Longrightarrow>
   try_block E w = (Inr (), w\<lparr>fs := (fs w)(output_path \<mapsto> write_newlines (linesep E) s),
     stdout := stdout w @ [success_message],
     trace := trace w @ script_ops @ [EvPrint success_message]\<rparr>)"
  by (simp add: try_written py_print_def log_def attempted_def take_script_ops)

lemma try_written_print_fails:
  "open_fault E input_path ModeR = None \<Longrightarrow> fs w input_path = Some t \<Longrightarrow>
   read_fault E input_path = None \<Longrightarrow> json_loads E t = Inr d \<Longrightarrow>
   subscript d ''types'' = Inr (PStr s) \<Longrightarrow> open_fault E output_path ModeW = None \<Longrightarrow>
   write_fault E output_path = None \<Longrightarrow> print_fault E success_message = Some e \<Longrightarrow>
   try_block E w = (Inl e, w\<lparr>fs := (fs w)(output_path \<mapsto> write_newlines (linesep E) s),
     trace := trace w @ script_ops @ [EvPrint success_message]\<rparr>)"
  by (simp add: try_written py_print_def log_def attempted_def take_script_ops)

lemma run_written_printed:
  "open_fault E input_path ModeR = None \<Longrightarrow> fs w input_path = Some t \<Longrightarrow>
   read_fault E input_path = None \<Longrightarrow> json_loads E t = Inr d \<Longrightarrow>
   subscript d ''types'' = Inr (PStr s) \<Longrightarrow> open_fault E output_path ModeW = None \<Longrightarrow>
   write_fault E output_path = None \<Longrightarrow> print_fault E success_message = None \<Longrightarrow>
   run E w = (Inr (), w\<lparr>fs := (fs w)(output_path \<mapsto> write_newlines (linesep E) s),
     stdout := stdout w @ [success_message],
     trace := trace w @ script_ops @ [EvPrint success_message]\<rparr>)"
  by (simp add: run_def try_written_printed)

lemma run_written_print_fails:
  "open_fault E input_path ModeR = None \<Longrightarrow> fs w input_path = Some t \<Longrightarrow>
   read_fault E input_path = None \<Longrightarrow> json_loads E t = Inr d \<Longrightarrow>
   subscript d ''types'' = Inr (PStr s) \<Longrightarrow> open_fault E output_path ModeW = None \<Longrightarrow>
   write_fault E output_path = None \<Longrightarrow> print_fault E success_message = Some e \<Longrightarrow>
   run E w = py_print E (error_message e) (w\<lparr>fs := (fs w)(output_path \<mapsto> write_newlines (linesep E) s),
     trace := trace w @ script_ops @ [EvPrint success_message]\<rparr>)"
  by (simp add: run_def try_written_print_fails)

lemmas run_simps = run_def events_def printed_def py_print_simps attempted_def take_script_ops

text \<open>Every \<^verbatim>\<open>try\<close> body ends at exactly one of these places: at a failing operation, or
  at the success \<^verbatim>\<open>print\<close> with the text written.\<close>

lemma outcome_cases:
  obtains
    (open_in) e where "open_fault E input_path ModeR = Some e"
  | (no_input) "open_fault E input_path ModeR = None" "fs w input_path = None"
  | (read_f) t e where "open_fault E input_path ModeR = None" "fs w input_path = Some t"
      "read_fault E input_path = Some e"
  | (loads_f) t e where "open_fault E input_path ModeR = None" "fs w input_path = Some t"
      "read_fault E input_path = None" "json_loads E t = Inl e"
  | (subscr) t d e where "open_fault E input_path ModeR = None" "fs w input_path = Some t"
      "read_fault E input_path = None" "json_loads E t = Inr d" "subscript d ''types'' = Inl e"
  | (open_out) t d v e where "open_fault E input_path ModeR = None" "fs w input_path = Some t"
      "read_fault E input_path = None" "json_loads E t = Inr d" "subscript d ''types'' = Inr v"
      "open_fault E output_path ModeW = Some e"
  | (not_str) t d v where "open_fault E input_path ModeR = None" "fs w input_path = Some t"
      "read_fault E input_path = None" "json_loads E t = Inr d" "subscript d ''types'' = Inr v"
      "open_fault E output_path ModeW = None" "\<not> is_str v"
  | (write_f) t d s e n where "open_fault E input_path ModeR = None" "fs w input_path = Some t"
      "read_fault E input_path = None" "json_loads E t = Inr d"
      "subscript d ''types'' = Inr (PStr s)" "open_fault E output_path ModeW = None"
      "write_fault E output_path = Some (e, n)"
  | (written) t d s where "open_fault E input_path ModeR = None" "fs w input_path = Some t"
      "read_fault E input_path = None" "json_loads E t = Inr d"
      "subscript d ''types'' = Inr (PStr s)" "open_fault E output_path ModeW = None"
      "write_fault E output_path = None"
proof (cases "open_fault E input_path ModeR")
  case (Some e)
  then show ?thesis by (rule open_in)
next
  case a: None
  show ?thesis
  proof (cases "fs w input_path")
    case None
    with a show ?thesis by (rule no_input)
  next
    case b: (Some t)
    show ?thesis
    proof (cases "read_fault E input_path")
      case (Some e)
      with a b show ?thesis by (rule read_f)
    next
      case c: None
      show ?thesis
      proof (cases "json_loads E t")
        case (Inl e)
        with a b c show ?thesis by (rule loads_f)
      next
        case d: (Inr d)
        show ?thesis
        proof (cases "subscript d ''types''")
          case (Inl e)
          with a b c d show ?thesis by (rule subscr)
        next
          case e: (Inr v)
          show ?thesis
          proof (cases "open_fault E output_path ModeW")
            case (Some e')
            with a b c d e show ?thesis by (rule open_out)
          next
            case f: None
            show ?thesis
            proof (cases "is_str v")
              case False
              with a b c d e f show ?thesis by (rule not_str)
            next
              case True
              then obtain s where "v = PStr s" by (cases v) simp_all
              with e have s: "subscript d ''types'' = Inr (PStr s)" by simp
              show ?thesis
              proof (cases "write_fault E output_path")
                case None
                with a b c d s f show ?thesis by (rule written)
              next
                case (Some en)
                then obtain e' n where "write_fault E output_path = Some (e', n)"
                  by (cases en) simp
                with a b c d s f show ?thesis by (rule write_f)
              qed
            qed
          qed
        qed
      qed
    qed
  qed
qed

lemmas example_defs = example_env_def windows_env_def denied_env_def disk_full_env_def
  stdout_full_env_def example_world_def no_input_world_def example_loads_def example_doc_def
  number_doc_def null_doc_def two_line_doc_def write_newlines_def


lemma failure_mode_try:
  assumes "failure_mode E w e"
  shows "\<exists>k W. 1 \<le> k \<and> k \<le> 6 \<and> try_block E w = (Inl e, W) \<and> stdout W = stdout w \<and>
    trace W = trace w @ take k script_ops"
proof (cases rule: outcome_cases [where E = E and w = w])
  case (open_in e0)
  with assms have "e = e0" by (auto simp: failure_mode_def)
  with open_in have "try_block E w = (Inl e, attempted w 1)" by (simp add: try_simps)
  then show ?thesis by (intro exI [of _ 1] exI [of _ "attempted w 1"]) (simp add: attempted_def)
next
  case no_input
  with assms have "e = OSError (''[Errno 2] No such file or directory: '' @ quoted input_path)"
    by (auto simp: failure_mode_def)
  with no_input have "try_block E w = (Inl e, attempted w 1)" by (simp add: try_simps)
  then show ?thesis by (intro exI [of _ 1] exI [of _ "attempted w 1"]) (simp add: attempted_def)
next
  case (read_f t e0)
  with assms have "e = e0" by (auto simp: failure_mode_def)
  with read_f have "try_block E w = (Inl e, attempted w 2)" by (simp add: try_simps)
  then show ?thesis by (intro exI [of _ 2] exI [of _ "attempted w 2"]) (simp add: attempted_def)
next
  case (loads_f t e0)
  with assms have "e = e0" by (auto simp: failure_mode_def)
  with loads_f have "try_block E w = (Inl e, attempted w 3)" by (simp add: try_simps)
  then show ?thesis by (intro exI [of _ 3] exI [of _ "attempted w 3"]) (simp add: attempted_def)
next
  case (subscr t d e0)
  with assms have "e = e0" by (cases d) (auto simp: failure_mode_def split: option.splits)
  with subscr have "try_block E w = (Inl e, attempted w 4)" by (simp add: try_simps)
  then show ?thesis by (intro exI [of _ 4] exI [of _ "attempted w 4"]) (simp add: attempted_def)
next
  case (open_out t d v e0)
  with assms have "e = e0" by (cases d) (auto simp: failure_mode_def split: option.splits)
  with open_out have "try_block E w = (Inl e, attempted w 5)" by (simp add: try_simps)
  then show ?thesis by (intro exI [of _ 5] exI [of _ "attempted w 5"]) (simp add: attempted_def)
next
  case (not_str t d v)
  with assms have "e = TypeError (''write() argument must be str, not '' @ bad_argument_name v)"
    by (cases d) (auto simp: failure_mode_def split: option.splits)
  with not_str have "try_block E w = (Inl e, (attempted w 6)\<lparr>fs := (fs w)(output_path \<mapsto> [])\<rparr>)"
    by (simp add: try_simps)
  then show ?thesis
    by (intro exI [of _ 6] exI [of _ "(attempted w 6)\<lparr>fs := (fs w)(output_path \<mapsto> [])\<rparr>"])
      (simp add: attempted_def)
next
  case (write_f t d s e0 n)
  with assms have "e = e0" by (cases d) (auto simp: failure_mode_def split: option.splits)
  with write_f have "try_block E w = (Inl e, (attempted w 6)\<lparr>fs := (fs w)(output_path \<mapsto> take n (write_newlines (linesep E) s))\<rparr>)"
    by (simp add: try_simps)
  then show ?thesis
    by (intro exI [of _ 6] exI [of _ "(attempted w 6)\<lparr>fs := (fs w)(output_path \<mapsto> take n (write_newlines (linesep E) s))\<rparr>"])
      (simp add: attempted_def)
next
  case (written t d s)
  with assms have False by (cases d) (auto simp: failure_mode_def split: option.splits)
  then show ?thesis ..
qed

lemma distinct_take_script_ops: "distinct (take k script_ops @ [EvPrint m])"
proof -
  have "distinct script_ops" by (simp add: script_ops_def)
  then have "distinct (take k script_ops)" by simp
  moreover have "EvPrint m \<notin> set script_ops" by (simp add: script_ops_def)
  then have "EvPrint m \<notin> set (take k script_ops)" by (auto dest: in_set_takeD)
  ultimately show ?thesis by simp
qed

section \<open>The claims\<close>

text \<open>
  Claim C1, as amended. When the input file opens and is read, the parser returns an object
  whose \<^verbatim>\<open>"types"\<close> entry is a string, and the output file opens and takes the write,
  the output file ends up holding that string as text mode writes it, each newline stored
  as the line separator of the platform: exactly that string where the separator is a
  newline or the string has none. If the \<^verbatim>\<open>print\<close> of the success message does not
  fail, the run ends normally with that message, which names the output path, printed.
\<close>

theorem types_written_on_success:
  assumes "open_fault E input_path ModeR = None" and "fs w input_path = Some t"
    and "read_fault E input_path = None"
    and "json_loads E t = Inr (PDict kvs)" and "map_of kvs ''types'' = Some (PStr s)"
    and "open_fault E output_path ModeW = None" and "write_fault E output_path = None"
  shows "fs (snd (run E w)) output_path = Some (write_newlines (linesep E) s) \<and>
    (linesep E = [CHR 0x0A] \<or> CHR 0x0A \<notin> set s \<longrightarrow>
       fs (snd (run E w)) output_path = Some s) \<and>
    (print_fault E success_message = None \<longrightarrow>
       fst (run E w) = Inr () \<and> stdout (snd (run E w)) = stdout w @ [success_message])"
proof -
  from assms(5) have sub: "subscript (PDict kvs) ''types'' = Inr (PStr s)" by simp
  have same: "linesep E = [CHR 0x0A] \<or> CHR 0x0A \<notin> set s \<longrightarrow>
      write_newlines (linesep E) s = s"
    by (simp add: write_newlines_same)
  show ?thesis
  proof (cases "print_fault E success_message")
    case None
    with assms sub have "run E w = (Inr (), w\<lparr>fs := (fs w)(output_path \<mapsto> write_newlines (linesep E) s),
        stdout := stdout w @ [success_message],
        trace := trace w @ script_ops @ [EvPrint success_message]\<rparr>)"
      by (simp add: run_written_printed)
    with same show ?thesis by simp
  next
    case (Some e)
    with assms sub have "run E w = py_print E (error_message e)
        (w\<lparr>fs := (fs w)(output_path \<mapsto> write_newlines (linesep E) s),
           trace := trace w @ script_ops @ [EvPrint success_message]\<rparr>)"
      by (simp add: run_written_print_fails)
    with Some same show ?thesis by (simp add: py_print_simps)
  qed
qed

theorem types_written_on_success_witness:
  "open_fault example_env input_path ModeR = None \<and>
   fs (example_world example_doc ''stale'') input_path = Some example_doc \<and>
   read_fault example_env input_path = None \<and>
   json_loads example_env example_doc = Inr (PDict [(''types'', PStr ''export type A = 1;'')]) \<and>
   map_of [(''types'', PStr ''export type A = 1;'')] ''types'' = Some (PStr ''export type A = 1;'') \<and>
   open_fault example_env output_path ModeW = None \<and>
   write_fault example_env output_path = None \<and>
   linesep example_env = [CHR 0x0A] \<and>
   print_fault example_env success_message = None \<and>
   fs (snd (run example_env (example_world example_doc ''stale''))) output_path
     = Some ''export type A = 1;'' \<and>
   fst (run example_env (example_world example_doc ''stale'')) = Inr () \<and>
   stdout (snd (run example_env (example_world example_doc ''stale''))) = [success_message]"
  using types_written_on_success [of example_env "example_world example_doc ''stale''"
      example_doc "[(''types'', PStr ''export type A = 1;'')]" "''export type A = 1;''"]
  by (simp add: example_defs)

text \<open>
  Both conditions are needed. Where lines are separated by carriage return and newline, a
  string of two lines is stored with the separator in place of its newline, so the file
  does not hold exactly the string. And with a standard output that is full the file is
  written as before, the \<^verbatim>\<open>print\<close> of the success message raises inside
  \<^verbatim>\<open>try\<close>, and no line is printed.
\<close>

theorem success_message_not_printed:
  "open_fault windows_env input_path ModeR = None \<and>
   fs (example_world two_line_doc ''stale'') input_path = Some two_line_doc \<and>
   read_fault windows_env input_path = None \<and>
   json_loads windows_env two_line_doc
     = Inr (PDict [(''types'', PStr (''type A = 1;'' @ [CHR 0x0A] @ ''type B = 2;''))]) \<and>
   open_fault windows_env output_path ModeW = None \<and>
   write_fault windows_env output_path = None \<and>
   fs (snd (run windows_env (example_world two_line_doc ''stale''))) output_path
     = Some (''type A = 1;'' @ [CHR 0x0D, CHR 0x0A] @ ''type B = 2;'') \<and>
   fs (snd (run windows_env (example_world two_line_doc ''stale''))) output_path
     \<noteq> Some (''type A = 1;'' @ [CHR 0x0A] @ ''type B = 2;'') \<and>
   open_fault stdout_full_env input_path ModeR = None \<and>
   fs (example_world example_doc ''stale'') input_path = Some example_doc \<and>
   read_fault stdout_full_env input_path = None \<and>
   json_loads stdout_full_env example_doc
     = Inr (PDict [(''types'', PStr ''export type A = 1;'')]) \<and>
   open_fault stdout_full_env output_path ModeW = None \<and>
   write_fault stdout_full_env output_path = None \<and>
   fs (snd (run stdout_full_env (example_world example_doc ''stale''))) output_path
     = Some ''export type A = 1;'' \<and>
   stdout (snd (run stdout_full_env (example_world example_doc ''stale''))) = []"
  by (simp add: run_def try_block_def op_defs example_defs)

text \<open>
  Claim C2, as amended. Each of the listed failures makes the \<^verbatim>\<open>try\<close> body raise the
  exception of that failure. The one handler takes it and calls \<^verbatim>\<open>print\<close> with
  \<^verbatim>\<open>Error:\<close> followed by the exception; no operation is attempted a second time,
  nothing but that \<^verbatim>\<open>print\<close> follows the failed operation, and the files stay as the
  failure left them. If that \<^verbatim>\<open>print\<close> does not itself fail, the line is printed and
  the run ends normally.
\<close>

theorem failure_caught_and_printed:
  assumes "failure_mode E w e"
  shows "fst (try_block E w) = Inl e \<and>
    fs (snd (run E w)) = fs (snd (try_block E w)) \<and>
    distinct (events E w) \<and>
    (\<exists>k. 1 \<le> k \<and> k \<le> 6 \<and> events E w = take k script_ops @ [EvPrint (error_message e)]) \<and>
    (print_fault E (error_message e) = None \<longrightarrow>
       fst (run E w) = Inr () \<and> stdout (snd (run E w)) = stdout w @ [error_message e])"
proof -
  from failure_mode_try [OF assms] obtain k W where k: "1 \<le> k" "k \<le> 6"
    and t: "try_block E w = (Inl e, W)" and W: "stdout W = stdout w"
      "trace W = trace w @ take k script_ops"
    by blast
  from t have r: "run E w = py_print E (error_message e) W" by (rule run_after_failure)
  from r W have ev: "events E w = take k script_ops @ [EvPrint (error_message e)]"
    by (simp add: events_def py_print_simps)
  from t have "fst (try_block E w) = Inl e" by simp
  moreover from r t have "fs (snd (run E w)) = fs (snd (try_block E w))"
    by (simp add: py_print_simps)
  moreover from ev have "distinct (events E w)" by (simp only: distinct_take_script_ops)
  moreover from ev k have "\<exists>k. 1 \<le> k \<and> k \<le> 6 \<and>
      events E w = take k script_ops @ [EvPrint (error_message e)]"
    by blast
  moreover from r W have "print_fault E (error_message e) = None \<longrightarrow>
       fst (run E w) = Inr () \<and> stdout (snd (run E w)) = stdout w @ [error_message e]"
    by (simp add: py_print_simps)
  ultimately show ?thesis by blast
qed

theorem failure_caught_and_printed_witness:
  "failure_mode example_env (no_input_world ''stale'')
     (OSError (''[Errno 2] No such file or directory: '' @ quoted input_path)) \<and>
   printed example_env (no_input_world ''stale'')
     = [''Error: [Errno 2] No such file or directory: '' @ quoted input_path] \<and>
   failure_mode example_env (example_world ''not json'' ''stale'')
     (ValueError ''Expecting value: line 1 column 1 (char 0)'') \<and>
   printed example_env (example_world ''not json'' ''stale'')
     = [''Error: Expecting value: line 1 column 1 (char 0)''] \<and>
   failure_mode example_env (example_world ''{}'' ''stale'') (KeyError ''types'') \<and>
   printed example_env (example_world ''{}'' ''stale'') = [''Error: '' @ quoted ''types''] \<and>
   failure_mode disk_full_env (example_world example_doc ''stale'')
     (OSError ''[Errno 28] No space left on device'') \<and>
   printed disk_full_env (example_world example_doc ''stale'')
     = [''Error: [Errno 28] No space left on device''] \<and>
   fs (snd (run disk_full_env (example_world example_doc ''stale''))) output_path = Some ''expo'' \<and>
   distinct (events disk_full_env (example_world example_doc ''stale''))"
proof -
  have a: "failure_mode example_env (no_input_world ''stale'')
     (OSError (''[Errno 2] No such file or directory: '' @ quoted input_path))"
    by (simp add: failure_mode_def example_defs)
  have b: "failure_mode example_env (example_world ''not json'' ''stale'')
     (ValueError ''Expecting value: line 1 column 1 (char 0)'')"
    by (simp add: failure_mode_def example_defs)
  have c: "failure_mode example_env (example_world ''{}'' ''stale'') (KeyError ''types'')"
    by (simp add: failure_mode_def example_defs)
  have d: "failure_mode disk_full_env (example_world example_doc ''stale'')
     (OSError ''[Errno 28] No space left on device'')"
    by (simp add: failure_mode_def example_defs)
  have po: "print_fault example_env s = None" "print_fault disk_full_env s = None" for s
    by (simp_all add: example_defs)
  have "fs (snd (try_block disk_full_env (example_world example_doc ''stale''))) output_path
      = Some ''expo''"
    by (simp add: try_block_def op_defs example_defs)
  with failure_caught_and_printed [OF a] failure_caught_and_printed [OF b]
    failure_caught_and_printed [OF c] failure_caught_and_printed [OF d] a b c d po
  show ?thesis
    by (simp add: printed_def error_message_def example_world_def no_input_world_def)
qed

text \<open>
  The condition on the handler's \<^verbatim>\<open>print\<close> is needed. With the input file missing and
  a standard output that is full, the handler's \<^verbatim>\<open>print\<close> raises: the error is not
  printed and the exception of the \<^verbatim>\<open>print\<close> leaves the script.
\<close>

theorem error_not_printed_when_print_fails:
  "failure_mode stdout_full_env (no_input_world ''stale'')
     (OSError (''[Errno 2] No such file or directory: '' @ quoted input_path)) \<and>
   printed stdout_full_env (no_input_world ''stale'') = [] \<and>
   fst (run stdout_full_env (no_input_world ''stale''))
     = Inl (OSError ''[Errno 28] No space left on device'')"
  by (simp add: failure_mode_def printed_def run_def try_block_def op_defs example_defs)

text \<open>
  Claim C3. A run attempts the operations of the script in program order (open and read
  the input, parse, take \<^verbatim>\<open>"types"\<close>, open the output, write) up to the first that
  fails, and then prints: the success message after all six, followed by the handler's
  line only when the \<^verbatim>\<open>print\<close> of the success message failed; the handler's line
  alone after a failure. If the output file is opened at all, the four operations before
  it are the ones on the input, and each of them succeeded.
\<close>

theorem operations_in_program_order:
  "trace (snd (run E w)) = trace w @ events E w \<and>
   (events E w = script_ops @ [EvPrint success_message] \<or>
    (\<exists>e. print_fault E success_message = Some e \<and>
       events E w = script_ops @ [EvPrint success_message, EvPrint (error_message e)]) \<or>
    (\<exists>k e. 1 \<le> k \<and> k \<le> 6 \<and> events E w = take k script_ops @ [EvPrint (error_message e)])) \<and>
   (EvOpen output_path ModeW \<in> set (events E w) \<longrightarrow>
      take 5 (events E w) = take 5 script_ops \<and>
      (\<exists>t d v. open_fault E input_path ModeR = None \<and> fs w input_path = Some t \<and>
         read_fault E input_path = None \<and> json_loads E t = Inr d \<and>
         subscript d ''types'' = Inr v))"
proof (cases rule: outcome_cases [where E = E and w = w])
  case (open_in e)
  then have "events E w = take 1 script_ops @ [EvPrint (error_message e)]"
    and "trace (snd (run E w)) = trace w @ events E w"
    by (simp_all add: try_simps run_simps)
  then show ?thesis by (auto simp: take_script_ops intro: exI [of _ 1])
next
  case no_input
  then have "events E w = take 1 script_ops @ [EvPrint (error_message
      (OSError (''[Errno 2] No such file or directory: '' @ quoted input_path)))]"
    and "trace (snd (run E w)) = trace w @ events E w"
    by (simp_all add: try_simps run_simps)
  then show ?thesis by (auto simp: take_script_ops intro: exI [of _ 1])
next
  case (read_f t e)
  then have "events E w = take 2 script_ops @ [EvPrint (error_message e)]"
    and "trace (snd (run E w)) = trace w @ events E w"
    by (simp_all add: try_simps run_simps)
  then show ?thesis by (auto simp: take_script_ops intro: exI [of _ 2])
next
  case (loads_f t e)
  then have "events E w = take 3 script_ops @ [EvPrint (error_message e)]"
    and "trace (snd (run E w)) = trace w @ events E w"
    by (simp_all add: try_simps run_simps)
  then show ?thesis by (auto simp: take_script_ops intro: exI [of _ 3])
next
  case (subscr t d e)
  then have "events E w = take 4 script_ops @ [EvPrint (error_message e)]"
    and "trace (snd (run E w)) = trace w @ events E w"
    by (simp_all add: try_simps run_simps)
  then show ?thesis by (auto simp: take_script_ops intro: exI [of _ 4])
next
  case (open_out t d v e)
  then have "events E w = take 5 script_ops @ [EvPrint (error_message e)]"
    and "trace (snd (run E w)) = trace w @ events E w"
    by (simp_all add: try_simps run_simps)
  with open_out show ?thesis by (auto simp: take_script_ops intro: exI [of _ 5])
next
  case (not_str t d v)
  then have "events E w = take 6 script_ops @ [EvPrint (error_message
      (TypeError (''write() argument must be str, not '' @ bad_argument_name v)))]"
    and "trace (snd (run E w)) = trace w @ events E w"
    by (simp_all add: try_simps run_simps)
  with not_str show ?thesis by (auto simp: script_ops_def intro: exI [of _ 6])
next
  case (write_f t d s e n)
  then have "events E w = take 6 script_ops @ [EvPrint (error_message e)]"
    and "trace (snd (run E w)) = trace w @ events E w"
    by (simp_all add: try_simps run_simps)
  with write_f show ?thesis by (auto simp: script_ops_def intro: exI [of _ 6])
next
  case (written t d s)
  show ?thesis
  proof (cases "print_fault E success_message")
    case None
    with written have "events E w = script_ops @ [EvPrint success_message]"
      and "trace (snd (run E w)) = trace w @ events E w"
      by (simp_all add: run_written_printed events_def)
    with written show ?thesis by (auto simp: script_ops_def)
  next
    case (Some e)
    with written have "events E w
        = script_ops @ [EvPrint success_message, EvPrint (error_message e)]"
      and "trace (snd (run E w)) = trace w @ events E w"
      by (simp_all add: run_written_print_fails events_def py_print_simps)
    with written Some show ?thesis by (auto simp: script_ops_def)
  qed
qed

theorem operations_in_program_order_witness:
  "trace (snd (run example_env (example_world example_doc ''stale'')))
     = trace (example_world example_doc ''stale'') @
       events example_env (example_world example_doc ''stale'') \<and>
   events example_env (example_world example_doc ''stale'')
     = [EvOpen input_path ModeR, EvRead input_path, EvLoads, EvGetItem ''types'',
        EvOpen output_path ModeW, EvWrite output_path, EvPrint success_message] \<and>
   EvOpen output_path ModeW \<in> set (events example_env (example_world example_doc ''stale'')) \<and>
   take 5 (events example_env (example_world example_doc ''stale'')) = take 5 script_ops \<and>
   (\<exists>t d v. open_fault example_env input_path ModeR = None \<and>
      fs (example_world example_doc ''stale'') input_path = Some t \<and>
      read_fault example_env input_path = None \<and> json_loads example_env t = Inr d \<and>
      subscript d ''types'' = Inr v)"
proof -
  have ev: "events example_env (example_world example_doc ''stale'')
     = [EvOpen input_path ModeR, EvRead input_path, EvLoads, EvGetItem ''types'',
        EvOpen output_path ModeW, EvWrite output_path, EvPrint success_message]"
    by (simp add: events_def run_def try_block_def op_defs example_defs)
  then have "EvOpen output_path ModeW \<in> set (events example_env (example_world example_doc ''stale''))"
    by simp
  with operations_in_program_order [of example_env "example_world example_doc ''stale''"] ev
  show ?thesis by blast
qed



text \<open>
  Claim C5, as amended. When the input holds an object whose \<^verbatim>\<open>"types"\<close> entry is a
  string, both file operations succeed and the \<^verbatim>\<open>print\<close> of the success message does
  not fail, the \<^verbatim>\<open>try\<close> body raises nothing, the handler is not entered (the script
  ends as the body ends), and the only line printed is the success message.
\<close>

theorem handler_not_entered_on_success:
  assumes "open_fault E input_path ModeR = None" and "fs w input_path = Some t"
    and "read_fault E input_path = None"
    and "json_loads E t = Inr (PDict kvs)" and "map_of kvs ''types'' = Some (PStr s)"
    and "open_fault E output_path ModeW = None" and "write_fault E output_path = None"
    and "print_fault E success_message = None"
  shows "fst (try_block E w) = Inr () \<and> run E w = try_block E w \<and>
    printed E w = [success_message] \<and> events E w = script_ops @ [EvPrint success_message]"
proof -
  from assms(5) have sub: "subscript (PDict kvs) ''types'' = Inr (PStr s)" by simp
  from assms sub have t: "try_block E w = (Inr (), w\<lparr>fs := (fs w)(output_path \<mapsto> write_newlines (linesep E) s),
        stdout := stdout w @ [success_message],
        trace := trace w @ script_ops @ [EvPrint success_message]\<rparr>)"
    by (intro try_written_printed)
  from assms sub have r: "run E w = (Inr (), w\<lparr>fs := (fs w)(output_path \<mapsto> write_newlines (linesep E) s),
        stdout := stdout w @ [success_message],
        trace := trace w @ script_ops @ [EvPrint success_message]\<rparr>)"
    by (intro run_written_printed)
  from t have "fst (try_block E w) = Inr ()" by simp
  moreover from t r have "run E w = try_block E w" by simp
  moreover from r have "printed E w = [success_message]"
    and "events E w = script_ops @ [EvPrint success_message]"
    by (simp_all add: printed_def events_def)
  ultimately show ?thesis by simp
qed

theorem handler_not_entered_on_success_witness:
  "open_fault example_env input_path ModeR = None \<and>
   fs (example_world example_doc ''stale'') input_path = Some example_doc \<and>
   read_fault example_env input_path = None \<and>
   json_loads example_env example_doc = Inr (PDict [(''types'', PStr ''export type A = 1;'')]) \<and>
   map_of [(''types'', PStr ''export type A = 1;'')] ''types'' = Some (PStr ''export type A = 1;'') \<and>
   open_fault example_env output_path ModeW = None \<and>
   write_fault example_env output_path = None \<and>
   print_fault example_env success_message = None \<and>
   fst (try_block example_env (example_world example_doc ''stale'')) = Inr () \<and>
   run example_env (example_world example_doc ''stale'')
     = try_block example_env (example_world example_doc ''stale'') \<and>
   printed example_env (example_world example_doc ''stale'') = [success_message] \<and>
   events example_env (example_world example_doc ''stale'')
     = script_ops @ [EvPrint success_message]"
  using handler_not_entered_on_success [of example_env "example_world example_doc ''stale''"
      example_doc "[(''types'', PStr ''export type A = 1;'')]" "''export type A = 1;''"]
  by (simp add: example_defs)

text \<open>
  The condition on the \<^verbatim>\<open>print\<close> is needed: the success message is printed inside
  \<^verbatim>\<open>try\<close>. With a standard output that is full, both file operations succeed, the
  \<^verbatim>\<open>print\<close> raises, and the handler is entered and attempts its own \<^verbatim>\<open>print\<close>.
\<close>

theorem success_print_failure_enters_handler:
  "open_fault stdout_full_env input_path ModeR = None \<and>
   fs (example_world example_doc ''stale'') input_path = Some example_doc \<and>
   read_fault stdout_full_env input_path = None \<and>
   json_loads stdout_full_env example_doc
     = Inr (PDict [(''types'', PStr ''export type A = 1;'')]) \<and>
   map_of [(''types'', PStr ''export type A = 1;'')] ''types'' = Some (PStr ''export type A = 1;'') \<and>
   open_fault stdout_full_env output_path ModeW = None \<and>
   write_fault stdout_full_env output_path = None \<and>
   fst (try_block stdout_full_env (example_world example_doc ''stale''))
     = Inl (OSError ''[Errno 28] No space left on device'') \<and>
   events stdout_full_env (example_world example_doc ''stale'')
     = script_ops @ [EvPrint success_message,
         EvPrint ''Error: [Errno 28] No space left on device''] \<and>
   printed stdout_full_env (example_world example_doc ''stale'') = []"
  by (simp add: printed_def events_def run_def try_block_def op_defs example_defs
      script_ops_def error_message_def)

text \<open>
  Claim C6. A run changes no file other than the one at the output path, and every file
  operation it attempts is on one of the two fixed paths: opening the input path for
  reading, reading it, opening the output path for writing, writing it. The command line,
  the environment variables and the network are not consulted: whatever they hold or
  answer, the run is the same.
\<close>

theorem only_fixed_paths_touched:
  "(\<forall>p. p \<noteq> output_path \<longrightarrow> fs (snd (run E w)) p = fs w p) \<and>
   list_all on_fixed_paths (events E w) \<and>
   (\<forall>a v n. run (E\<lparr>argv := a, environ := v, network := n\<rparr>) w = run E w)"
proof -
  have indep: "\<forall>a v n. run (E\<lparr>argv := a, environ := v, network := n\<rparr>) w = run E w"
  proof (intro allI)
    fix a v n
    let ?E = "E\<lparr>argv := a, environ := v, network := n\<rparr>"
    have same: "open_r ?E = open_r E" "json_load ?E = json_load E"
      "open_w ?E = open_w E" "f_write ?E = f_write E" "py_print ?E = py_print E"
      by (simp_all add: fun_eq_iff op_defs split: option.split pyval.split)
    show "run ?E w = run E w" unfolding run_def try_block_def same ..
  qed
  have "(\<forall>p. p \<noteq> output_path \<longrightarrow> fs (snd (run E w)) p = fs w p) \<and>
      list_all on_fixed_paths (events E w)"
  proof (cases rule: outcome_cases [where E = E and w = w])
    case open_in
    then show ?thesis by (simp add: try_simps run_simps)
  next
    case no_input
    then show ?thesis by (simp add: try_simps run_simps)
  next
    case read_f
    then show ?thesis by (simp add: try_simps run_simps)
  next
    case loads_f
    then show ?thesis by (simp add: try_simps run_simps)
  next
    case subscr
    then show ?thesis by (simp add: try_simps run_simps)
  next
    case open_out
    then show ?thesis by (simp add: try_simps run_simps)
  next
    case not_str
    then show ?thesis by (simp add: try_simps run_simps script_ops_def)
  next
    case write_f
    then show ?thesis by (simp add: try_simps run_simps script_ops_def)
  next
    case written
    show ?thesis
    proof (cases "print_fault E success_message")
      case None
      with written show ?thesis
        by (simp add: run_written_printed events_def script_ops_def)
    next
      case (Some e)
      with written show ?thesis
        by (simp add: run_written_print_fails events_def py_print_simps script_ops_def)
    qed
  qed
  with indep show ?thesis by blast
qed

theorem only_fixed_paths_touched_witness:
  "''g:/cw/package.json'' \<noteq> output_path \<and>
   fs (snd (run example_env ((example_world example_doc ''stale'')
         \<lparr>fs := (fs (example_world example_doc ''stale''))(''g:/cw/package.json'' \<mapsto> ''{}'')\<rparr>)))
      ''g:/cw/package.json'' = Some ''{}'' \<and>
   list_all on_fixed_paths (events example_env ((example_world example_doc ''stale'')
         \<lparr>fs := (fs (example_world example_doc ''stale''))(''g:/cw/package.json'' \<mapsto> ''{}'')\<rparr>)) \<and>
   run (example_env\<lparr>argv := [''update_types.py'', ''--out'', ''other.ts''],
          environ := [''TYPES_OUT'' \<mapsto> ''other.ts''],
          network := (\<lambda>u. Inr ''{}'')\<rparr>)
       ((example_world example_doc ''stale'')
         \<lparr>fs := (fs (example_world example_doc ''stale''))(''g:/cw/package.json'' \<mapsto> ''{}'')\<rparr>)
     = run example_env ((example_world example_doc ''stale'')
         \<lparr>fs := (fs (example_world example_doc ''stale''))(''g:/cw/package.json'' \<mapsto> ''{}'')\<rparr>)"
proof -
  have ne: "''g:/cw/package.json'' \<noteq> output_path" by (simp add: output_path_def)
  from only_fixed_paths_touched [of example_env "(example_world example_doc ''stale'')
         \<lparr>fs := (fs (example_world example_doc ''stale''))(''g:/cw/package.json'' \<mapsto> ''{}'')\<rparr>"] ne
  show ?thesis by simp
qed




text \<open>
  Claim C8. When the run fails before the output file is opened (the input file does not
  open or cannot be read, the parser rejects its text, or the parsed value has no
  \<^verbatim>\<open>"types"\<close> entry to give), no file is changed, the output file in particular, and
  the output file is never opened.
\<close>

theorem early_failure_keeps_files:
  assumes "open_fault E input_path ModeR \<noteq> None \<or> fs w input_path = None \<or>
      read_fault E input_path \<noteq> None \<or>
      (\<exists>t e. fs w input_path = Some t \<and> json_loads E t = Inl e) \<or>
      (\<exists>t d e. fs w input_path = Some t \<and> json_loads E t = Inr d \<and>
         subscript d ''types'' = Inl e)"
  shows "fs (snd (run E w)) = fs w \<and> EvOpen output_path ModeW \<notin> set (events E w)"
proof (cases rule: outcome_cases [where E = E and w = w])
  case open_in
  then show ?thesis by (simp add: try_simps run_simps)
next
  case no_input
  then show ?thesis by (simp add: try_simps run_simps)
next
  case read_f
  then show ?thesis by (simp add: try_simps run_simps)
next
  case loads_f
  then show ?thesis by (simp add: try_simps run_simps)
next
  case subscr
  then show ?thesis by (simp add: try_simps run_simps)
next
  case open_out
  with assms show ?thesis by simp
next
  case not_str
  with assms show ?thesis by simp
next
  case write_f
  with assms show ?thesis by simp
next
  case written
  with assms show ?thesis by simp
qed

theorem early_failure_keeps_files_witness:
  "fs (example_world ''{}'' ''stale'') input_path = Some ''{}'' \<and>
   json_loads example_env ''{}'' = Inr (PDict []) \<and>
   subscript (PDict []) ''types'' = Inl (KeyError ''types'') \<and>
   fs (snd (run example_env (example_world ''{}'' ''stale''))) = fs (example_world ''{}'' ''stale'') \<and>
   fs (snd (run example_env (example_world ''{}'' ''stale''))) output_path = Some ''stale'' \<and>
   EvOpen output_path ModeW \<notin> set (events example_env (example_world ''{}'' ''stale''))"
proof -
  have h: "fs (example_world ''{}'' ''stale'') input_path = Some ''{}'' \<and>
      json_loads example_env ''{}'' = Inr (PDict []) \<and>
      subscript (PDict []) ''types'' = Inl (KeyError ''types'')"
    by (simp add: example_defs)
  then have "\<exists>t d e. fs (example_world ''{}'' ''stale'') input_path = Some t \<and>
       json_loads example_env t = Inr d \<and> subscript d ''types'' = Inl e"
    by blast
  with early_failure_keeps_files [of example_env "example_world ''{}'' ''stale''"]
  have "fs (snd (run example_env (example_world ''{}'' ''stale''))) = fs (example_world ''{}'' ''stale'') \<and>
    EvOpen output_path ModeW \<notin> set (events example_env (example_world ''{}'' ''stale''))"
    by blast
  moreover have "fs (example_world ''{}'' ''stale'') output_path = Some ''stale''"
    by (simp add: example_defs)
  ultimately show ?thesis using h by simp
qed

text \<open>
  Claim C9, as amended. When the \<^verbatim>\<open>"types"\<close> entry is present but not a string and the
  output file opens, the run goes through all six operations: the open truncates the output
  file, the write raises \<^verbatim>\<open>TypeError\<close>, the handler is handed it and calls
  \<^verbatim>\<open>print\<close> (the line is printed if that does not fail), and the output file is left
  empty.
\<close>

theorem non_string_truncates_output:
  assumes "open_fault E input_path ModeR = None" and "fs w input_path = Some t"
    and "read_fault E input_path = None"
    and "json_loads E t = Inr (PDict kvs)" and "map_of kvs ''types'' = Some v"
    and "\<not> is_str v"
    and "open_fault E output_path ModeW = None"
  shows "fs (snd (run E w)) output_path = Some [] \<and>
    events E w = script_ops @
      [EvPrint (error_message
         (TypeError (''write() argument must be str, not '' @ bad_argument_name v)))] \<and>
    (print_fault E (error_message
         (TypeError (''write() argument must be str, not '' @ bad_argument_name v))) = None \<longrightarrow>
     printed E w =
       [error_message (TypeError (''write() argument must be str, not '' @ bad_argument_name v))])"
proof -
  from assms(5) have "subscript (PDict kvs) ''types'' = Inr v" by simp
  with assms have "try_block E w =
     (Inl (TypeError (''write() argument must be str, not '' @ bad_argument_name v)),
      (attempted w 6)\<lparr>fs := (fs w)(output_path \<mapsto> [])\<rparr>)"
    by (intro try_not_str)
  then show ?thesis by (simp add: run_simps)
qed

theorem non_string_truncates_output_witness:
  "open_fault example_env input_path ModeR = None \<and>
   fs (example_world null_doc ''stale'') input_path = Some null_doc \<and>
   read_fault example_env input_path = None \<and>
   json_loads example_env null_doc = Inr (PDict [(''types'', PNone)]) \<and>
   map_of [(''types'', PNone)] ''types'' = Some PNone \<and> \<not> is_str PNone \<and>
   open_fault example_env output_path ModeW = None \<and>
   fs (example_world null_doc ''stale'') output_path = Some ''stale'' \<and>
   fs (snd (run example_env (example_world null_doc ''stale''))) output_path = Some [] \<and>
   events example_env (example_world null_doc ''stale'') = script_ops @
     [EvPrint ''Error: write() argument must be str, not None''] \<and>
   printed example_env (example_world null_doc ''stale'')
     = [''Error: write() argument must be str, not None'']"
  using non_string_truncates_output [of example_env "example_world null_doc ''stale''"
      null_doc "[(''types'', PNone)]" PNone]
  by (simp add: example_defs error_message_def)

text \<open>
  The hypothesis that the output file opens is needed. With the same kind of document and
  an operating system that refuses to open the output file for writing, the run stops at
  the open: the file is not truncated and \<^verbatim>\<open>f.write\<close> is never reached.
\<close>

theorem non_string_open_denied_keeps_output:
  "fs (example_world number_doc ''stale'') input_path = Some number_doc \<and>
   json_loads denied_env number_doc = Inr (PDict [(''types'', PInt 5)]) \<and>
   map_of [(''types'', PInt 5)] ''types'' = Some (PInt 5) \<and> \<not> is_str (PInt 5) \<and>
   fs (snd (run denied_env (example_world number_doc ''stale''))) output_path = Some ''stale'' \<and>
   events denied_env (example_world number_doc ''stale'')
     = [EvOpen input_path ModeR, EvRead input_path, EvLoads, EvGetItem ''types'',
        EvOpen output_path ModeW,
        EvPrint (''Error: [Errno 13] Permission denied: '' @ quoted output_path)]"
  by (simp add: events_def run_def try_block_def op_defs example_defs error_message_def)



end
